theory Spec2Isabelle
  imports Main
begin

section \<open>The VMware builder: data model\<close>

text \<open>
  A shallow embedding of \<^verbatim>\<open>builder/vmware/builder.go\<close>: the \<^verbatim>\<open>Builder\<close> with its
  three operations \<^verbatim>\<open>Prepare\<close>, \<^verbatim>\<open>Run\<close> and \<^verbatim>\<open>Cancel\<close>.

  Go's \<^verbatim>\<open>uint\<close> port numbers are \<open>nat\<close> (the code compares them and tests them
  against 0, it never computes with them); a \<^verbatim>\<open>time.Duration\<close> is a count of
  nanoseconds, an \<open>int\<close> (the code stores what the parser returns and never computes
  with it). A Go map is a partial function.
\<close>

type_synonym Duration = int

definition Nanosecond :: Duration where "Nanosecond = 1"
definition Microsecond :: Duration where "Microsecond = 1000 * Nanosecond"
definition Millisecond :: Duration where "Millisecond = 1000 * Microsecond"
definition Second :: Duration where "Second = 1000 * Millisecond"
definition Minute :: Duration where "Minute = 60 * Second"
definition Hour :: Duration where "Hour = 60 * Minute"

record config =
  DiskName :: string
  GuestOSType :: string
  ISOUrl :: string
  VMName :: string
  OutputDir :: string
  HTTPDir :: string
  HTTPPortMin :: nat
  HTTPPortMax :: nat
  BootCommand :: "string list"
  BootWait :: Duration
  ShutdownCommand :: string
  ShutdownTimeout :: Duration
  SSHUser :: string
  SSHPassword :: string
  SSHWaitTimeout :: Duration
  VMXData :: "string \<rightharpoonup> string"
  VNCPortMin :: nat
  VNCPortMax :: nat
  RawBootWait :: string
  RawShutdownTimeout :: string
  RawSSHWaitTimeout :: string

text \<open>The zero value of the struct: what a freshly allocated \<^verbatim>\<open>Builder\<close> holds.\<close>

definition zero_config :: config where
  "zero_config =
     \<lparr>DiskName = [], GuestOSType = [], ISOUrl = [], VMName = [], OutputDir = [],
      HTTPDir = [], HTTPPortMin = 0, HTTPPortMax = 0, BootCommand = [], BootWait = 0,
      ShutdownCommand = [], ShutdownTimeout = 0, SSHUser = [], SSHPassword = [],
      SSHWaitTimeout = 0, VMXData = Map.empty, VNCPortMin = 0, VNCPortMax = 0,
      RawBootWait = [], RawShutdownTimeout = [], RawSSHWaitTimeout = []\<rparr>"

text \<open>
  The only \<^verbatim>\<open>Driver\<close> the file constructs is \<^verbatim>\<open>&Fusion5Driver{fusionAppPath}\<close>; a nil
  interface value is \<open>None\<close>.
\<close>

datatype Driver = Fusion5Driver string

text \<open>
  Errors. \<^verbatim>\<open>errors.New\<close> and \<^verbatim>\<open>fmt.Errorf\<close> build an error from its message;
  \<^verbatim>\<open>&packer.MultiError{errs}\<close> wraps the accumulated list. Errors that come back from
  code outside this file (the decoder, the duration parser, the driver's \<^verbatim>\<open>Verify\<close>)
  are only ever formatted with \<^verbatim>\<open>%s\<close> or returned as they are, so they are carried as
  their message.
\<close>

datatype error = ErrorString string | MultiError "error list"

section \<open>The pipeline's data\<close>

text \<open>
  The ten steps \<^verbatim>\<open>Run\<close> lists. Their \<^verbatim>\<open>Run\<close> and \<^verbatim>\<open>Cleanup\<close> methods are declared in
  other files of the package; what they do is a parameter of the model (\<open>impl\<close> below).
\<close>

datatype step_id =
  stepPrepareOutputDir | stepCreateDisk | stepCreateVMX | stepHTTPServer | stepConfigureVNC
  | stepRun | stepTypeBootCommand | stepWaitForSSH | stepProvision | stepShutdown

datatype StepAction = ActionContinue | ActionHalt

text \<open>\<^verbatim>\<open>packer.Hook\<close> is an interface the builder only passes on: a handle.\<close>

datatype Hook = Hook string

text \<open>
  The values of the state bag, a \<^verbatim>\<open>map[string]interface{}\<close>. \<^verbatim>\<open>&b.config\<close> is a pointer:
  \<open>ConfigPtr\<close>, whose target is the configuration the steps share with the builder;
  \<open>UiVal\<close> refers to the UI the steps share with \<^verbatim>\<open>Run\<close>.
\<close>

datatype val =
  ConfigPtr | DriverVal "Driver option" | HookVal Hook | UiVal
  | BoolVal bool | StringVal string | UintVal nat

type_synonym bag = "string \<rightharpoonup> val"

definition has_key :: "bag \<Rightarrow> string \<Rightarrow> bool" where
  "has_key m k = (m k \<noteq> None)"

text \<open>
  Modelled from the spec: the two sentinel flags of the execution context, cancelled
  and halted. The source names their keys by two constants of the \<^verbatim>\<open>multistep\<close>
  library.
\<close>

definition StateCancelled :: string where "StateCancelled = ''cancelled''"
definition StateHalted :: string where "StateHalted = ''halted''"

text \<open>
  Modelled from the spec: the \<^verbatim>\<open>multistep\<close> runner is not part of the source file.
  The spec's Pipeline Runner executes an ordered list of steps against one Execution
  Context, and its \<^verbatim>\<open>cancel()\<close> marks that context cancelled. So a runner is its list of
  steps and, while a run is in progress, the context of that run; an idle runner has
  none.
\<close>

record BasicRunner =
  Steps :: "step_id list"
  ctx :: "bag option"

record Builder =
  config :: config
  driver :: "Driver option"
  runner :: "BasicRunner option"

definition new_Builder :: Builder where
  "new_Builder = \<lparr>config = zero_config, driver = None, runner = None\<rparr>"

section \<open>Parsing durations\<close>

text \<open>
  \<^verbatim>\<open>time.ParseDuration\<close> belongs to Go's standard library. It reads
  \<^verbatim>\<open>[-+]?([0-9]*(\.[0-9]*)?[a-z]+)+\<close> and, for a fractional part, computes in
  \<^verbatim>\<open>float64\<close>. The model follows the library's loop on the strings where no float
  rounding can occur and on which all releases of the library agree: an optional sign,
  then one or more groups of decimal digits and an ASCII unit, every number below
  \<open>10 ^ 8\<close> (the first releases read a number into 32 bits) and the total below
  \<open>2 ^ 53\<close> nanoseconds. On every other string (a fraction, a unit outside the table, a
  malformed string, a huge value) the model hands over to a parameter \<open>lib\<close>, which
  stands for the library itself and may answer anything: a duration and possibly an
  error message.
\<close>

definition is_digit :: "char \<Rightarrow> bool" where
  "is_digit c = (c \<in> set ''0123456789'')"

definition digit_val :: "char \<Rightarrow> int" where
  "digit_val c = of_char c - 48"

fun leadingInt :: "int \<Rightarrow> string \<Rightarrow> int \<times> string" where
  "leadingInt x [] = (x, [])"
| "leadingInt x (c # cs) =
     (if is_digit c then leadingInt (x * 10 + digit_val c) cs else (x, c # cs))"

definition unitMap :: "(string \<times> int) list" where
  "unitMap =
     [(''ns'', 1), (''us'', 1000), (''ms'', 1000000), (''s'', 1000000000),
      (''m'', 60000000000), (''h'', 3600000000000)]"

definition unit_char :: "char \<Rightarrow> bool" where
  "unit_char c = (c \<noteq> CHR ''.'' \<and> \<not> is_digit c)"

text \<open>
  One round of the library's loop per group; \<open>None\<close> means that the string has left the
  modelled fragment. The first argument bounds the number of rounds; every round
  consumes at least two characters, so the length of the string is enough.
\<close>

fun duration_groups :: "nat \<Rightarrow> string \<Rightarrow> int option" where
  "duration_groups n [] = Some 0"
| "duration_groups 0 (c # cs) = None"
| "duration_groups (Suc n) (c # cs) =
     (if \<not> is_digit c then None
      else (case leadingInt 0 (c # cs) of
        (x, r) \<Rightarrow>
          (let u = takeWhile unit_char r; r' = dropWhile unit_char r in
           if u = [] \<or> x \<ge> 10 ^ 8 then None
           else (case map_of unitMap u of
             None \<Rightarrow> None
           | Some k \<Rightarrow>
               (case duration_groups n r' of
                 None \<Rightarrow> None
               | Some t \<Rightarrow> Some (x * k + t))))))"

definition whole_duration :: "string \<Rightarrow> Duration option" where
  "whole_duration s =
     (let neg = (s \<noteq> [] \<and> hd s = CHR ''-'');
          r = (if s \<noteq> [] \<and> (hd s = CHR ''-'' \<or> hd s = CHR ''+'') then tl s else s)
      in if r = ''0'' then Some 0
         else if r = [] then None
         else (case duration_groups (length r) r of
           None \<Rightarrow> None
         | Some d \<Rightarrow>
             if d < 2 ^ 53 then Some (if neg then - d else d) else None))"

definition ParseDuration ::
  "(string \<Rightarrow> Duration \<times> string option) \<Rightarrow> string \<Rightarrow> Duration \<times> string option" where
  "ParseDuration lib s =
     (case whole_duration s of Some d \<Rightarrow> (d, None) | None \<Rightarrow> lib s)"

section \<open>Prepare\<close>

text \<open>
  What \<^verbatim>\<open>Prepare\<close> calls outside this file is a parameter:
  \<^item> \<open>Decode\<close> is \<^verbatim>\<open>mapstructure.Decode(raw, &b.config)\<close>: from the raw value and the
    configuration it writes into, the configuration it leaves and its error, if any;
  \<^item> \<open>LibParseDuration\<close> is the standard library's parser outside the fragment above;
  \<^item> \<open>Verify\<close> is the driver's \<^verbatim>\<open>Verify\<close> method (the driver is declared in another
    file of the package): its error, if any.
\<close>

record 'r externals =
  Decode :: "'r \<Rightarrow> config \<Rightarrow> config \<times> string option"
  LibParseDuration :: "string \<Rightarrow> Duration \<times> string option"
  Verify :: "Driver \<Rightarrow> string option"

definition newDriver :: "'r externals \<Rightarrow> Driver option \<times> string option" where
  "newDriver X =
     (let fusionAppPath = ''/Applications/VMware Fusion.app'';
          d = Fusion5Driver fusionAppPath
      in (case Verify X d of
            Some err \<Rightarrow> (None, Some err)
          | None \<Rightarrow> (Some d, None)))"

text \<open>
  Three shapes of statement recur in \<^verbatim>\<open>Prepare\<close>. \<^verbatim>\<open>if x == "" { x = v }\<close> is the update
  \<open>x := or_default [] v x\<close> (and likewise for a port that is 0);
  \<^verbatim>\<open>if c { errs = append(errs, e) }\<close> is \<open>errs @ err_if c e\<close>; and
  \<^verbatim>\<open>if err != nil { errs = append(errs, fmt.Errorf(prefix + "%s", err)) }\<close> is
  \<open>errs @ err_of prefix err\<close>. The parsed duration is stored whether or not the parser
  reported an error, as in the source. The result is the builder as \<^verbatim>\<open>Prepare\<close> leaves it
  and the error it returns (\<open>None\<close> for nil).
\<close>

definition or_default :: "'a \<Rightarrow> 'a \<Rightarrow> 'a \<Rightarrow> 'a" where
  "or_default z v x = (if x = z then v else x)"

definition err_if :: "bool \<Rightarrow> error \<Rightarrow> error list" where
  "err_if c e = (if c then [e] else [])"

definition err_of :: "string \<Rightarrow> string option \<Rightarrow> error list" where
  "err_of prefix e = (case e of None \<Rightarrow> [] | Some m \<Rightarrow> [ErrorString (prefix @ m)])"

definition Prepare :: "'r externals \<Rightarrow> 'r \<Rightarrow> Builder \<Rightarrow> Builder \<times> error option" where
  "Prepare X raw b =
     (case Decode X raw (config b) of
        (c0, Some err) \<Rightarrow> (b\<lparr>config := c0\<rparr>, Some (ErrorString err))
      | (c0, None) \<Rightarrow>
         (let c1 = c0\<lparr>DiskName := or_default [] ''disk'' (DiskName c0),
                      GuestOSType := or_default [] ''other'' (GuestOSType c0),
                      VMName := or_default [] ''packer'' (VMName c0),
                      HTTPPortMin := or_default 0 8000 (HTTPPortMin c0),
                      HTTPPortMax := or_default 0 9000 (HTTPPortMax c0),
                      VNCPortMin := or_default 0 5900 (VNCPortMin c0),
                      VNCPortMax := or_default 0 6000 (VNCPortMax c0),
                      OutputDir := or_default [] ''vmware'' (OutputDir c0)\<rparr>;
              errs0 = [];
              errs1 = errs0 @ err_if (HTTPPortMin c1 > HTTPPortMax c1)
                        (ErrorString ''http_port_min must be less than http_port_max'');
              errs2 = errs1 @ err_if (ISOUrl c1 = [])
                        (ErrorString ''An iso_url must be specified.'');
              errs3 = errs2 @ err_if (SSHUser c1 = [])
                        (ErrorString ''An ssh_username must be specified.'');
              bw = (if RawBootWait c1 \<noteq> []
                    then ParseDuration (LibParseDuration X) (RawBootWait c1)
                    else (BootWait c1, None));
              c2 = c1\<lparr>BootWait := fst bw\<rparr>;
              errs4 = errs3 @ err_of ''Failed parsing boot_wait: '' (snd bw);
              c3 = c2\<lparr>RawShutdownTimeout := or_default [] ''5m'' (RawShutdownTimeout c2)\<rparr>;
              st = ParseDuration (LibParseDuration X) (RawShutdownTimeout c3);
              c4 = c3\<lparr>ShutdownTimeout := fst st\<rparr>;
              errs5 = errs4 @ err_of ''Failed parsing shutdown_timeout: '' (snd st);
              c5 = c4\<lparr>RawSSHWaitTimeout := or_default [] ''20m'' (RawSSHWaitTimeout c4)\<rparr>;
              sw = ParseDuration (LibParseDuration X) (RawSSHWaitTimeout c5);
              c6 = c5\<lparr>SSHWaitTimeout := fst sw\<rparr>;
              errs6 = errs5 @ err_of ''Failed parsing ssh_wait_timeout: '' (snd sw);
              errs7 = errs6 @ err_if (VNCPortMin c6 > VNCPortMax c6)
                        (ErrorString ''vnc_port_min must be less than vnc_port_max'');
              nd = newDriver X;
              b' = b\<lparr>config := c6, driver := fst nd\<rparr>;
              errs8 = errs7 @ err_of ''Failed creating VMware driver: '' (snd nd)
          in if length errs8 > 0 then (b', Some (MultiError errs8)) else (b', None)))"

section \<open>The file system and \<^verbatim>\<open>filepath.Walk\<close>\<close>

text \<open>
  \<^verbatim>\<open>Run\<close> collects its result with \<^verbatim>\<open>filepath.Walk\<close> of Go's standard library. A node
  of the file system is a directory with the entries \<^verbatim>\<open>readDir\<close> returns (it sorts them by
  name), a directory that cannot be read, or anything else (\<open>File\<close>). \<open>lstat\<close> answers
  \<^verbatim>\<open>os.Lstat\<close> of a path: its error, or the node there with all that lies below it.
  \<open>ui_errors\<close> are the messages passed to \<^verbatim>\<open>ui.Error\<close>.
\<close>

datatype fnode = File | Dir "(string \<times> fnode) list" | DirUnreadable string

record world =
  lstat :: "string \<Rightarrow> string + fnode"
  ui_errors :: "string list"

datatype walk_error = SkipDir | OsError string

fun Error :: "walk_error \<Rightarrow> string" where
  "Error SkipDir = ''skip this directory''"
| "Error (OsError m) = m"

text \<open>
  \<^verbatim>\<open>filepath.Clean\<close> and \<^verbatim>\<open>filepath.Join\<close> on a Unix path: the elements between
  separators, without the empty ones and \<^verbatim>\<open>.\<close>, each \<^verbatim>\<open>..\<close> taking away the element
  before it where there is one.
\<close>

primrec elems :: "string \<Rightarrow> string list" where
  "elems [] = [[]]"
| "elems (c # cs) =
     (if c = CHR ''/'' then [] # elems cs
      else (case elems cs of [] \<Rightarrow> [[c]] | e # es \<Rightarrow> (c # e) # es))"

fun clean_elems :: "bool \<Rightarrow> string list \<Rightarrow> string list \<Rightarrow> string list" where
  "clean_elems rooted out [] = rev out"
| "clean_elems rooted out (e # es) =
     (if e = [] \<or> e = ''.'' then clean_elems rooted out es
      else if e = ''..'' then
        (case out of
           [] \<Rightarrow> if rooted then clean_elems rooted [] es else clean_elems rooted [''..''] es
         | p # ps \<Rightarrow>
             if p \<noteq> ''..'' then clean_elems rooted ps es
             else clean_elems rooted (''..'' # out) es)
      else clean_elems rooted (e # out) es)"

fun join_sep :: "string list \<Rightarrow> string" where
  "join_sep [] = []"
| "join_sep [e] = e"
| "join_sep (e # es) = e @ ''/'' @ join_sep es"

definition Clean :: "string \<Rightarrow> string" where
  "Clean path =
     (if path = [] then ''.''
      else (let rooted = (hd path = CHR ''/'');
                out = (if rooted then ''/'' else []) @ join_sep (clean_elems rooted [] (elems path))
            in if out = [] then ''.'' else out))"

definition Join :: "string \<Rightarrow> string \<Rightarrow> string" where
  "Join a b =
     (if a \<noteq> [] then Clean (a @ ''/'' @ b) else if b \<noteq> [] then Clean b else [])"

text \<open>
  The walk, as the library has it: the function is called on the node first; an error
  it returns ends the walk (but \<^verbatim>\<open>SkipDir\<close> on a directory only skips it); a directory
  that cannot be read is handed to the function a second time, with the error; the
  entries are walked in order. The function threads a state \<open>'s\<close>, here the slice the
  closure appends to. (Releases of the library differ in how a \<^verbatim>\<open>SkipDir\<close> returned for an
  entry is treated; the closure of \<^verbatim>\<open>Run\<close> never returns it.)
\<close>

type_synonym 's WalkFunc =
  "string \<Rightarrow> fnode option \<Rightarrow> walk_error option \<Rightarrow> 's \<Rightarrow> walk_error option \<times> 's"

fun walk :: "string \<Rightarrow> fnode \<Rightarrow> 's WalkFunc \<Rightarrow> 's \<Rightarrow> walk_error option \<times> 's"
  and walk_list ::
    "string \<Rightarrow> (string \<times> fnode) list \<Rightarrow> 's WalkFunc \<Rightarrow> 's \<Rightarrow> walk_error option \<times> 's" where
  "walk path File walkFn s = walkFn path (Some File) None s"
| "walk path (DirUnreadable e) walkFn s =
     (case walkFn path (Some (DirUnreadable e)) None s of
        (Some err, s1) \<Rightarrow> if err = SkipDir then (None, s1) else (Some err, s1)
      | (None, s1) \<Rightarrow> walkFn path (Some (DirUnreadable e)) (Some (OsError e)) s1)"
| "walk path (Dir list) walkFn s =
     (case walkFn path (Some (Dir list)) None s of
        (Some err, s1) \<Rightarrow> if err = SkipDir then (None, s1) else (Some err, s1)
      | (None, s1) \<Rightarrow> walk_list path list walkFn s1)"
| "walk_list path [] walkFn s = (None, s)"
| "walk_list path ((name, fileInfo) # rest) walkFn s =
     (case walk (Join path name) fileInfo walkFn s of
        (Some err, s1) \<Rightarrow> (Some err, s1)
      | (None, s1) \<Rightarrow> walk_list path rest walkFn s1)"

definition Walk ::
  "(string \<Rightarrow> string + fnode) \<Rightarrow> string \<Rightarrow> 's WalkFunc \<Rightarrow> 's \<Rightarrow> walk_error option \<times> 's" where
  "Walk ls root walkFn s =
     (case ls root of
        Inl err \<Rightarrow> walkFn root None (Some (OsError err)) s
      | Inr info \<Rightarrow> walk root info walkFn s)"

section \<open>The runner\<close>

text \<open>
  What a step sees and may change: the state bag, the configuration behind the pointer
  in the bag, and the world outside (files, the UI).
\<close>

record exec =
  bag :: bag
  conf :: config
  wld :: world

record impl =
  Run_step :: "step_id \<Rightarrow> exec \<Rightarrow> StepAction \<times> exec"
  Cleanup_step :: "step_id \<Rightarrow> exec \<Rightarrow> exec"

text \<open>
  Modelled from the spec: the runner's algorithm, which the source file only calls.
  For each step in order: if the context is already cancelled or halted, stop
  advancing; otherwise run the step and push it on the stack of executed steps whatever
  its outcome; if it signals a fatal condition, mark the context halted and stop. Then
  pop the stack, cleaning up each executed step, latest first. The last argument of
  \<open>run_steps\<close> is that stack.
\<close>

fun run_steps :: "impl \<Rightarrow> step_id list \<Rightarrow> exec \<Rightarrow> step_id list \<Rightarrow> exec \<times> step_id list" where
  "run_steps I [] e ex = (e, ex)"
| "run_steps I (s # ss) e ex =
     (if has_key (bag e) StateCancelled \<or> has_key (bag e) StateHalted then (e, ex)
      else (case Run_step I s e of
        (ActionHalt, e') \<Rightarrow> (e'\<lparr>bag := (bag e')(StateHalted \<mapsto> BoolVal True)\<rparr>, s # ex)
      | (ActionContinue, e') \<Rightarrow> run_steps I ss e' (s # ex)))"

fun cleanup_steps :: "impl \<Rightarrow> step_id list \<Rightarrow> exec \<Rightarrow> exec" where
  "cleanup_steps I [] e = e"
| "cleanup_steps I (s # ex) e = cleanup_steps I ex (Cleanup_step I s e)"

text \<open>
  A run from start to end. The result is the runner, idle again, the context as the
  cleanups leave it, and the steps that ran, first to last. The model runs a run in
  one piece: a cancel that arrives from outside while a step runs shows as that step
  leaving the cancelled marker in the bag (a step is any function of the context).
\<close>

definition BasicRunner_Run ::
  "impl \<Rightarrow> BasicRunner \<Rightarrow> exec \<Rightarrow> BasicRunner \<times> exec \<times> step_id list" where
  "BasicRunner_Run I r e =
     (case run_steps I (Steps r) e [] of
        (e1, ex) \<Rightarrow> (r\<lparr>ctx := None\<rparr>, cleanup_steps I ex e1, rev ex))"

text \<open>
  Modelled from the spec: \<^verbatim>\<open>cancel()\<close> of the runner marks the context of the run in
  progress cancelled, and is a no-op on a runner that is not running. It is applied to
  a builder at rest; \<open>ctx\<close> stands for the bag of a run in progress where a theorem
  speaks of a builder in the middle of a run.
\<close>

definition BasicRunner_Cancel :: "BasicRunner \<Rightarrow> BasicRunner" where
  "BasicRunner_Cancel r =
     r\<lparr>ctx := map_option (\<lambda>m. m(StateCancelled \<mapsto> BoolVal True)) (ctx r)\<rparr>"

section \<open>Run and Cancel\<close>

text \<open>
  The artifact \<^verbatim>\<open>&Artifact{b.config.OutputDir, files}\<close>: a directory and a list of paths
  (the struct is declared in another file of the package; the literal gives its two
  fields in this order).
\<close>

record Artifact =
  dir :: string
  paths :: "string list"

text \<open>
  The closure \<^verbatim>\<open>visit\<close>: it appends the path it is given, whatever the node and the
  error, and returns the error it was given.
\<close>

definition visit :: "string list WalkFunc" where
  "visit path info err files = (err, files @ [path])"

text \<open>
  \<^verbatim>\<open>Run\<close> returns the artifact or nil. Beside it the model returns what the call leaves
  behind (the builder, the world) and two things a caller cannot see but the
  specification speaks of: the context as the runner leaves it (\<open>ended\<close>: the state
  bag that \<^verbatim>\<open>Run\<close> then inspects, the configuration, the world before the walk), and
  the steps that ran. Seeding the random number generator has no part in any property
  below and is left out.
\<close>

record outcome =
  builder :: Builder
  after :: world
  ended :: exec
  executed :: "step_id list"
  artifact :: "Artifact option"

definition Run :: "impl \<Rightarrow> Builder \<Rightarrow> Hook \<Rightarrow> world \<Rightarrow> outcome" where
  "Run I b hook w =
     (let steps = [stepPrepareOutputDir, stepCreateDisk, stepCreateVMX, stepHTTPServer,
                   stepConfigureVNC, stepRun, stepTypeBootCommand, stepWaitForSSH,
                   stepProvision, stepShutdown];
          state = [''config'' \<mapsto> ConfigPtr, ''driver'' \<mapsto> DriverVal (driver b),
                   ''hook'' \<mapsto> HookVal hook, ''ui'' \<mapsto> UiVal];
          r = \<lparr>Steps = steps, ctx = None\<rparr>
      in (case BasicRunner_Run I r \<lparr>bag = state, conf = config b, wld = w\<rparr> of
        (r', e, tr) \<Rightarrow>
          (let b' = b\<lparr>config := conf e, runner := Some r'\<rparr>;
               res = \<lparr>builder = b', after = wld e, ended = e, executed = tr,
                      artifact = None\<rparr>
           in if has_key (bag e) StateCancelled then res
              else if has_key (bag e) StateHalted then res
              else (case Walk (lstat (wld e)) (OutputDir (config b')) visit [] of
                (Some err, files) \<Rightarrow>
                  res\<lparr>after := (wld e)\<lparr>ui_errors := ui_errors (wld e) @
                          [''Error collecting result files: '' @ Error err]\<rparr>\<rparr>
              | (None, files) \<Rightarrow>
                  res\<lparr>artifact := Some \<lparr>dir = OutputDir (config b'), paths = files\<rparr>\<rparr>))))"

text \<open>
  \<^verbatim>\<open>Cancel\<close>: nothing when the builder has no runner; otherwise one line in the log and
  the runner's own cancel. The second component is what the call logs.
\<close>

definition Cancel :: "Builder \<Rightarrow> Builder \<times> string list" where
  "Cancel b =
     (case runner b of
        None \<Rightarrow> (b, [])
      | Some r \<Rightarrow> (b\<lparr>runner := Some (BasicRunner_Cancel r)\<rparr>, [''Cancelling the step runner...'']))"

section \<open>Concrete inputs\<close>

text \<open>
  Inputs on which the theorems below are exercised. The decoder of \<open>plain_externals\<close>
  is given a raw value that sets every field, and writes it; its duration parser
  rejects what the fragment above does not cover; its driver verifies.
  \<open>no_fusion_externals\<close> differs in the driver, which does not verify.
\<close>

definition plain_externals :: "config externals" where
  "plain_externals =
     \<lparr>Decode = (\<lambda>raw c. (raw, None)),
      LibParseDuration = (\<lambda>s. (0, Some (''time: invalid duration '' @ s))),
      Verify = (\<lambda>d. None)\<rparr>"

definition no_fusion_externals :: "config externals" where
  "no_fusion_externals = plain_externals\<lparr>Verify := (\<lambda>d. Some ''VMware Fusion not found'')\<rparr>"

text \<open>
  A decoder for a raw value that lists port options by name: it writes the bounds that
  are listed and leaves the others as they are, as the decoder does for the keys of
  the raw map. \<open>zero_ports_raw\<close> sets all four bounds to 0; the empty list sets none.
\<close>

definition port_externals :: "(string \<times> nat) list externals" where
  "port_externals =
     \<lparr>Decode = (\<lambda>raw c.
        (c\<lparr>HTTPPortMin :=
             (case map_of raw ''http_port_min'' of Some v \<Rightarrow> v | None \<Rightarrow> HTTPPortMin c),
           HTTPPortMax :=
             (case map_of raw ''http_port_max'' of Some v \<Rightarrow> v | None \<Rightarrow> HTTPPortMax c),
           VNCPortMin :=
             (case map_of raw ''vnc_port_min'' of Some v \<Rightarrow> v | None \<Rightarrow> VNCPortMin c),
           VNCPortMax :=
             (case map_of raw ''vnc_port_max'' of Some v \<Rightarrow> v | None \<Rightarrow> VNCPortMax c)\<rparr>,
         None)),
      LibParseDuration = (\<lambda>s. (0, Some (''time: invalid duration '' @ s))),
      Verify = (\<lambda>d. None)\<rparr>"

definition zero_ports_raw :: "(string \<times> nat) list" where
  "zero_ports_raw =
     [(''http_port_min'', 0), (''http_port_max'', 0), (''vnc_port_min'', 0),
      (''vnc_port_max'', 0)]"

text \<open>A configuration that names the two required options and nothing else.\<close>

definition minimal_raw :: config where
  "minimal_raw = zero_config\<lparr>ISOUrl := ''http://example.com/os.iso'', SSHUser := ''root''\<rparr>"

text \<open>The same with \<^verbatim>\<open>boot_wait\<close> set to \<^verbatim>\<open>-5m\<close>.\<close>

definition negative_raw :: config where
  "negative_raw = minimal_raw\<lparr>RawBootWait := ''-5m''\<rparr>"

text \<open>
  A configuration with both port ranges inverted, no \<^verbatim>\<open>iso_url\<close>, no \<^verbatim>\<open>ssh_username\<close>
  and three durations that do not parse.
\<close>

definition inverted_raw :: config where
  "inverted_raw =
     zero_config\<lparr>HTTPPortMin := 9000, HTTPPortMax := 8000, VNCPortMin := 7000,
                  RawBootWait := ''soon'', RawShutdownTimeout := ''later'',
                  RawSSHWaitTimeout := ''never''\<rparr>"

text \<open>
  Steps that all continue and change nothing; steps during the sixth of which the
  context is marked cancelled (a cancel that arrives while the virtual machine starts);
  and steps of which the second halts.
\<close>

definition quiet_impl :: impl where
  "quiet_impl = \<lparr>Run_step = (\<lambda>s e. (ActionContinue, e)), Cleanup_step = (\<lambda>s e. e)\<rparr>"

definition cancelling_impl :: impl where
  "cancelling_impl =
     \<lparr>Run_step = (\<lambda>s e. (ActionContinue,
        if s = stepRun then e\<lparr>bag := (bag e)(StateCancelled \<mapsto> BoolVal True)\<rparr> else e)),
      Cleanup_step = (\<lambda>s e. e)\<rparr>"

definition halting_impl :: impl where
  "halting_impl =
     \<lparr>Run_step = (\<lambda>s e. (if s = stepCreateDisk then ActionHalt else ActionContinue, e)),
      Cleanup_step = (\<lambda>s e. e)\<rparr>"

text \<open>
  A builder whose output directory is \<^verbatim>\<open>d\<close>, and two worlds: in one, \<^verbatim>\<open>d\<close> holds the file
  \<^verbatim>\<open>a\<close> and the directory \<^verbatim>\<open>b\<close> with the file \<^verbatim>\<open>c\<close>; in the other nothing exists.
\<close>

definition d_builder :: Builder where
  "d_builder = new_Builder\<lparr>config := minimal_raw\<lparr>OutputDir := ''d''\<rparr>\<rparr>"

definition d_world :: world where
  "d_world =
     \<lparr>lstat = (\<lambda>p. if p = ''d'' then Inr (Dir [(''a'', File), (''b'', Dir [(''c'', File)])])
                     else Inl (''lstat '' @ p @ '': no such file or directory'')),
      ui_errors = []\<rparr>"

definition empty_world :: world where
  "empty_world =
     \<lparr>lstat = (\<lambda>p. Inl (''lstat '' @ p @ '': no such file or directory'')), ui_errors = []\<rparr>"

text \<open>A builder in the middle of a run: its runner holds the context of the run.\<close>

definition running_builder :: Builder where
  "running_builder =
     d_builder\<lparr>runner := Some
       \<lparr>Steps = [stepPrepareOutputDir, stepCreateDisk, stepCreateVMX, stepHTTPServer,
                  stepConfigureVNC, stepRun, stepTypeBootCommand, stepWaitForSSH,
                  stepProvision, stepShutdown],
        ctx = Some [''config'' \<mapsto> ConfigPtr, ''driver'' \<mapsto> DriverVal None,
                    ''hook'' \<mapsto> HookVal (Hook ''h''), ''ui'' \<mapsto> UiVal]\<rparr>\<rparr>"

section \<open>Prepare: what it leaves behind\<close>

lemma fst_if_pair: "fst (if c then (a, x) else (a, y)) = a"
  by simp

lemma snd_if_pair: "snd (if c then (a, x) else (a', y)) = (if c then x else y)"
  by simp

lemma Prepare_decode_failed:
  assumes "Decode X raw (config b) = (c0, Some err)"
  shows "Prepare X raw b = (b\<lparr>config := c0\<rparr>, Some (ErrorString err))"
  unfolding Prepare_def assms by (simp only: prod.case option.case)

lemma Prepare_accepted_decoded:
  assumes "snd (Prepare X raw b) = None"
  shows "\<exists>c0. Decode X raw (config b) = (c0, None)"
proof (cases "Decode X raw (config b)")
  case (Pair c0 e)
  show ?thesis
  proof (cases e)
    case None
    with Pair show ?thesis by simp
  next
    case (Some m)
    with Pair have "Prepare X raw b = (b\<lparr>config := c0\<rparr>, Some (ErrorString m))"
      by (simp only: Prepare_decode_failed)
    with assms show ?thesis by simp
  qed
qed

lemma Prepare_config:
  assumes "Decode X raw (config b) = (c0, None)"
  shows "config (fst (Prepare X raw b)) =
    c0\<lparr>DiskName := or_default [] ''disk'' (DiskName c0),
       GuestOSType := or_default [] ''other'' (GuestOSType c0),
       VMName := or_default [] ''packer'' (VMName c0),
       HTTPPortMin := or_default 0 8000 (HTTPPortMin c0),
       HTTPPortMax := or_default 0 9000 (HTTPPortMax c0),
       VNCPortMin := or_default 0 5900 (VNCPortMin c0),
       VNCPortMax := or_default 0 6000 (VNCPortMax c0),
       OutputDir := or_default [] ''vmware'' (OutputDir c0),
       BootWait := fst (if RawBootWait c0 \<noteq> []
                    then ParseDuration (LibParseDuration X) (RawBootWait c0)
                    else (BootWait c0, None)),
       RawShutdownTimeout := or_default [] ''5m'' (RawShutdownTimeout c0),
       ShutdownTimeout :=
         fst (ParseDuration (LibParseDuration X) (or_default [] ''5m'' (RawShutdownTimeout c0))),
       RawSSHWaitTimeout := or_default [] ''20m'' (RawSSHWaitTimeout c0),
       SSHWaitTimeout :=
         fst (ParseDuration (LibParseDuration X) (or_default [] ''20m'' (RawSSHWaitTimeout c0)))\<rparr>"
  using assms by (simp add: Prepare_def Let_def fst_if_pair split del: if_split cong: if_cong)

lemma Prepare_driver:
  assumes "Decode X raw (config b) = (c0, None)"
  shows "driver (fst (Prepare X raw b)) = fst (newDriver X)"
    and "runner (fst (Prepare X raw b)) = runner b"
  using assms by (simp_all add: Prepare_def Let_def fst_if_pair split del: if_split cong: if_cong)

lemma Prepare_errors:
  assumes "Decode X raw (config b) = (c0, None)"
  defines "E \<equiv>
       err_if (or_default 0 8000 (HTTPPortMin c0) > or_default 0 9000 (HTTPPortMax c0))
         (ErrorString ''http_port_min must be less than http_port_max'') @
       err_if (ISOUrl c0 = []) (ErrorString ''An iso_url must be specified.'') @
       err_if (SSHUser c0 = []) (ErrorString ''An ssh_username must be specified.'') @
       err_of ''Failed parsing boot_wait: ''
         (snd (if RawBootWait c0 \<noteq> []
          then ParseDuration (LibParseDuration X) (RawBootWait c0) else (BootWait c0, None))) @
       err_of ''Failed parsing shutdown_timeout: ''
         (snd (ParseDuration (LibParseDuration X) (or_default [] ''5m'' (RawShutdownTimeout c0)))) @
       err_of ''Failed parsing ssh_wait_timeout: ''
         (snd (ParseDuration (LibParseDuration X) (or_default [] ''20m'' (RawSSHWaitTimeout c0)))) @
       err_if (or_default 0 5900 (VNCPortMin c0) > or_default 0 6000 (VNCPortMax c0))
         (ErrorString ''vnc_port_min must be less than vnc_port_max'') @
       err_of ''Failed creating VMware driver: '' (snd (newDriver X))"
  shows "snd (Prepare X raw b) = (if 0 < length E then Some (MultiError E) else None)"
  using assms(1) unfolding E_def
  by (simp add: Prepare_def Let_def snd_if_pair del: length_greater_0_conv
      split del: if_split cong: if_cong)


lemma err_if_set [simp]: "e \<in> set (err_if c e') \<longleftrightarrow> c \<and> e = e'"
  by (auto simp: err_if_def)

lemma err_of_set [simp]: "e \<in> set (err_of p m) \<longleftrightarrow> (\<exists>t. m = Some t \<and> e = ErrorString (p @ t))"
  by (cases m) (auto simp: err_of_def)

lemma err_if_Nil [simp]: "err_if c e = [] \<longleftrightarrow> \<not> c"
  by (simp add: err_if_def)

lemma err_of_Nil [simp]: "err_of p m = [] \<longleftrightarrow> m = None"
  by (cases m) (simp_all add: err_of_def)

lemma newDriver_eq:
  "newDriver X =
     (case Verify X (Fusion5Driver ''/Applications/VMware Fusion.app'') of
        Some err \<Rightarrow> (None, Some err)
      | None \<Rightarrow> (Some (Fusion5Driver ''/Applications/VMware Fusion.app''), None))"
  by (simp add: newDriver_def Let_def)

text \<open>The fields of the configuration after a decoding that succeeded.\<close>

lemma Prepare_fields:
  assumes "Decode X raw (config b) = (c0, None)"
  shows "HTTPPortMin (config (fst (Prepare X raw b))) = or_default 0 8000 (HTTPPortMin c0)"
    and "HTTPPortMax (config (fst (Prepare X raw b))) = or_default 0 9000 (HTTPPortMax c0)"
    and "VNCPortMin (config (fst (Prepare X raw b))) = or_default 0 5900 (VNCPortMin c0)"
    and "VNCPortMax (config (fst (Prepare X raw b))) = or_default 0 6000 (VNCPortMax c0)"
    and "ISOUrl (config (fst (Prepare X raw b))) = ISOUrl c0"
    and "SSHUser (config (fst (Prepare X raw b))) = SSHUser c0"
    and "RawBootWait (config (fst (Prepare X raw b))) = RawBootWait c0"
    and "RawShutdownTimeout (config (fst (Prepare X raw b))) =
           or_default [] ''5m'' (RawShutdownTimeout c0)"
    and "RawSSHWaitTimeout (config (fst (Prepare X raw b))) =
           or_default [] ''20m'' (RawSSHWaitTimeout c0)"
    and "BootWait (config (fst (Prepare X raw b))) =
           fst (if RawBootWait c0 \<noteq> []
                then ParseDuration (LibParseDuration X) (RawBootWait c0)
                else (BootWait c0, None))"
    and "ShutdownTimeout (config (fst (Prepare X raw b))) =
           fst (ParseDuration (LibParseDuration X) (or_default [] ''5m'' (RawShutdownTimeout c0)))"
    and "SSHWaitTimeout (config (fst (Prepare X raw b))) =
           fst (ParseDuration (LibParseDuration X) (or_default [] ''20m'' (RawSSHWaitTimeout c0)))"
  by (simp_all add: Prepare_config [OF assms] split del: if_split cong: if_cong)


lemmas duration_defs =
  ParseDuration_def whole_duration_def is_digit_def digit_val_def unit_char_def unitMap_def
  Hour_def Minute_def Second_def Millisecond_def Microsecond_def Nanosecond_def

lemma ParseDuration_5m: "ParseDuration lib ''5m'' = (5 * Minute, None)"
  by (simp add: duration_defs)

lemma ParseDuration_20m: "ParseDuration lib ''20m'' = (20 * Minute, None)"
  by (simp add: duration_defs)

lemma ParseDuration_minus_5m: "ParseDuration lib ''-5m'' = (- (5 * Minute), None)"
  by (simp add: duration_defs)

lemma decode_plain: "Decode plain_externals raw c = (raw, None)"
  by (simp add: plain_externals_def)

lemma decode_no_fusion: "Decode no_fusion_externals raw c = (raw, None)"
  by (simp add: no_fusion_externals_def plain_externals_def)

section \<open>Properties of Prepare\<close>

text \<open>\<^verbatim>\<open>Prepare\<close> sees the raw value only through what the decoder makes of it.\<close>

lemma Prepare_reads_decoded:
  "Decode X raw' (config b) = Decode X raw (config b) \<Longrightarrow> Prepare X raw' b = Prepare X raw b"
  unfolding Prepare_def by (simp only:)

lemma Prepare_minimal_accepted: "snd (Prepare plain_externals minimal_raw new_Builder) = None"
  by (subst Prepare_errors [OF decode_plain])
    (simp add: newDriver_eq plain_externals_def minimal_raw_def zero_config_def
      or_default_def ParseDuration_5m ParseDuration_20m)

lemma decode_ports:
  "Decode port_externals zero_ports_raw (config d_builder) = (config d_builder, None)"
  "Decode port_externals [] (config d_builder) = (config d_builder, None)"
  by (simp_all add: port_externals_def zero_ports_raw_def d_builder_def new_Builder_def
      minimal_raw_def zero_config_def)

lemma d_builder_ports:
  "HTTPPortMin (config d_builder) = 0" "HTTPPortMax (config d_builder) = 0"
  "VNCPortMin (config d_builder) = 0" "VNCPortMax (config d_builder) = 0"
  by (simp_all add: d_builder_def new_Builder_def minimal_raw_def zero_config_def)

lemma Prepare_zero_ports_accepted:
  "snd (Prepare port_externals zero_ports_raw d_builder) = None"
  by (subst Prepare_errors [OF decode_ports(1)])
    (simp add: newDriver_eq port_externals_def d_builder_def new_Builder_def minimal_raw_def
      zero_config_def or_default_def ParseDuration_5m ParseDuration_20m)

text \<open>
  C9. A port bound that decodes to 0 is replaced by its default (8000, 9000, 5900, 6000);
  no configuration \<^verbatim>\<open>Prepare\<close> accepts has a port bound 0; and a bound set to 0 cannot be
  told from an absent one: the struct has no mark for "absent", and two raw values that
  decode alike (as an explicit 0 and a missing key do in a new builder) are prepared
  alike.
\<close>

theorem Prepare_port_defaults:
  "(Decode X raw (config b) = (c0, None) \<longrightarrow>
      HTTPPortMin (config (fst (Prepare X raw b))) =
        (if HTTPPortMin c0 = 0 then 8000 else HTTPPortMin c0) \<and>
      HTTPPortMax (config (fst (Prepare X raw b))) =
        (if HTTPPortMax c0 = 0 then 9000 else HTTPPortMax c0) \<and>
      VNCPortMin (config (fst (Prepare X raw b))) =
        (if VNCPortMin c0 = 0 then 5900 else VNCPortMin c0) \<and>
      VNCPortMax (config (fst (Prepare X raw b))) =
        (if VNCPortMax c0 = 0 then 6000 else VNCPortMax c0)) \<and>
   (snd (Prepare X raw b) = None \<longrightarrow>
      HTTPPortMin (config (fst (Prepare X raw b))) \<noteq> 0 \<and>
      HTTPPortMax (config (fst (Prepare X raw b))) \<noteq> 0 \<and>
      VNCPortMin (config (fst (Prepare X raw b))) \<noteq> 0 \<and>
      VNCPortMax (config (fst (Prepare X raw b))) \<noteq> 0) \<and>
   (Decode X raw' (config b) = Decode X raw (config b) \<longrightarrow>
      Prepare X raw' b = Prepare X raw b)"
proof (intro conjI impI)
  assume "Decode X raw' (config b) = Decode X raw (config b)"
  then show "Prepare X raw' b = Prepare X raw b"
    by (rule Prepare_reads_decoded)
next
  assume ok: "snd (Prepare X raw b) = None"
  obtain c1 where d: "Decode X raw (config b) = (c1, None)"
    using Prepare_accepted_decoded [OF ok] by auto
  show "HTTPPortMin (config (fst (Prepare X raw b))) \<noteq> 0"
    by (simp add: Prepare_fields(1) [OF d] or_default_def)
  show "HTTPPortMax (config (fst (Prepare X raw b))) \<noteq> 0"
    by (simp add: Prepare_fields(2) [OF d] or_default_def)
  show "VNCPortMin (config (fst (Prepare X raw b))) \<noteq> 0"
    by (simp add: Prepare_fields(3) [OF d] or_default_def)
  show "VNCPortMax (config (fst (Prepare X raw b))) \<noteq> 0"
    by (simp add: Prepare_fields(4) [OF d] or_default_def)
next
  assume d: "Decode X raw (config b) = (c0, None)"
  show "HTTPPortMin (config (fst (Prepare X raw b))) =
          (if HTTPPortMin c0 = 0 then 8000 else HTTPPortMin c0)"
    by (simp add: Prepare_fields(1) [OF d] or_default_def)
  show "HTTPPortMax (config (fst (Prepare X raw b))) =
          (if HTTPPortMax c0 = 0 then 9000 else HTTPPortMax c0)"
    by (simp add: Prepare_fields(2) [OF d] or_default_def)
  show "VNCPortMin (config (fst (Prepare X raw b))) =
          (if VNCPortMin c0 = 0 then 5900 else VNCPortMin c0)"
    by (simp add: Prepare_fields(3) [OF d] or_default_def)
  show "VNCPortMax (config (fst (Prepare X raw b))) =
          (if VNCPortMax c0 = 0 then 6000 else VNCPortMax c0)"
    by (simp add: Prepare_fields(4) [OF d] or_default_def)
qed

theorem Prepare_port_defaults_witness:
  "Decode port_externals zero_ports_raw (config d_builder) = (config d_builder, None) \<and>
   HTTPPortMin (config d_builder) = 0 \<and> HTTPPortMax (config d_builder) = 0 \<and>
   VNCPortMin (config d_builder) = 0 \<and> VNCPortMax (config d_builder) = 0 \<and>
   snd (Prepare port_externals zero_ports_raw d_builder) = None \<and>
   HTTPPortMin (config (fst (Prepare port_externals zero_ports_raw d_builder))) = 8000 \<and>
   HTTPPortMax (config (fst (Prepare port_externals zero_ports_raw d_builder))) = 9000 \<and>
   VNCPortMin (config (fst (Prepare port_externals zero_ports_raw d_builder))) = 5900 \<and>
   VNCPortMax (config (fst (Prepare port_externals zero_ports_raw d_builder))) = 6000 \<and>
   Decode port_externals [] (config d_builder) =
     Decode port_externals zero_ports_raw (config d_builder) \<and>
   Prepare port_externals [] d_builder = Prepare port_externals zero_ports_raw d_builder"
  using Prepare_port_defaults
      [of port_externals zero_ports_raw d_builder "config d_builder" "[]"]
    decode_ports Prepare_zero_ports_accepted d_builder_ports
  by simp

text \<open>
  C4. When \<^verbatim>\<open>shutdown_timeout\<close> decodes to the empty string, the shutdown timeout
  \<^verbatim>\<open>Prepare\<close> stores is exactly 5 minutes; when \<^verbatim>\<open>ssh_wait_timeout\<close> decodes to the empty
  string, the SSH wait timeout is exactly 20 minutes.
\<close>

theorem Prepare_default_timeouts:
  "Decode X raw (config b) = (c0, None) \<Longrightarrow>
     (RawShutdownTimeout c0 = [] \<longrightarrow>
        ShutdownTimeout (config (fst (Prepare X raw b))) = 5 * Minute) \<and>
     (RawSSHWaitTimeout c0 = [] \<longrightarrow>
        SSHWaitTimeout (config (fst (Prepare X raw b))) = 20 * Minute)"
  by (simp add: Prepare_fields or_default_def ParseDuration_5m ParseDuration_20m)

theorem Prepare_default_timeouts_witness:
  "Decode plain_externals minimal_raw (config new_Builder) = (minimal_raw, None) \<and>
   RawShutdownTimeout minimal_raw = [] \<and> RawSSHWaitTimeout minimal_raw = [] \<and>
   snd (Prepare plain_externals minimal_raw new_Builder) = None \<and>
   ShutdownTimeout (config (fst (Prepare plain_externals minimal_raw new_Builder))) =
     300000000000 \<and>
   SSHWaitTimeout (config (fst (Prepare plain_externals minimal_raw new_Builder))) =
     1200000000000"
proof -
  have z: "RawShutdownTimeout minimal_raw = []" "RawSSHWaitTimeout minimal_raw = []"
    by (simp_all add: minimal_raw_def zero_config_def)
  have m: "5 * Minute = 300000000000" "20 * Minute = 1200000000000"
    by (simp_all add: Minute_def Second_def Millisecond_def Microsecond_def Nanosecond_def)
  show ?thesis
    using Prepare_default_timeouts [OF decode_plain, of minimal_raw new_Builder] z m
      decode_plain [of minimal_raw "config new_Builder"] Prepare_minimal_accepted
    by simp
qed

text \<open>
  C3. After a decoding that succeeded, if a port range is inverted once the defaults
  are in, \<^verbatim>\<open>Prepare\<close> fails with one \<^verbatim>\<open>MultiError\<close> that names the inverted range, and
  the same list holds the message of every other violation present: a missing
  \<^verbatim>\<open>iso_url\<close>, a missing \<^verbatim>\<open>ssh_username\<close>, each duration that does not parse, and a
  driver that does not verify. (A decoding that fails returns its own error at once,
  before any default is set.)
\<close>

theorem Prepare_reports_all_violations:
  assumes "Decode X raw (config b) = (c0, None)"
    and "c = config (fst (Prepare X raw b))"
    and "HTTPPortMin c > HTTPPortMax c \<or> VNCPortMin c > VNCPortMax c"
  shows "\<exists>errs. snd (Prepare X raw b) = Some (MultiError errs) \<and>
    (HTTPPortMin c > HTTPPortMax c \<longrightarrow>
       ErrorString ''http_port_min must be less than http_port_max'' \<in> set errs) \<and>
    (VNCPortMin c > VNCPortMax c \<longrightarrow>
       ErrorString ''vnc_port_min must be less than vnc_port_max'' \<in> set errs) \<and>
    (ISOUrl c = [] \<longrightarrow> ErrorString ''An iso_url must be specified.'' \<in> set errs) \<and>
    (SSHUser c = [] \<longrightarrow> ErrorString ''An ssh_username must be specified.'' \<in> set errs) \<and>
    (\<forall>m. RawBootWait c \<noteq> [] \<and>
          snd (ParseDuration (LibParseDuration X) (RawBootWait c)) = Some m \<longrightarrow>
       ErrorString (''Failed parsing boot_wait: '' @ m) \<in> set errs) \<and>
    (\<forall>m. snd (ParseDuration (LibParseDuration X) (RawShutdownTimeout c)) = Some m \<longrightarrow>
       ErrorString (''Failed parsing shutdown_timeout: '' @ m) \<in> set errs) \<and>
    (\<forall>m. snd (ParseDuration (LibParseDuration X) (RawSSHWaitTimeout c)) = Some m \<longrightarrow>
       ErrorString (''Failed parsing ssh_wait_timeout: '' @ m) \<in> set errs) \<and>
    (\<forall>m. Verify X (Fusion5Driver ''/Applications/VMware Fusion.app'') = Some m \<longrightarrow>
       ErrorString (''Failed creating VMware driver: '' @ m) \<in> set errs)"
proof -
  note d = assms(1)
  note f = Prepare_fields [OF d]
  define E where "E =
       err_if (or_default 0 8000 (HTTPPortMin c0) > or_default 0 9000 (HTTPPortMax c0))
         (ErrorString ''http_port_min must be less than http_port_max'') @
       err_if (ISOUrl c0 = []) (ErrorString ''An iso_url must be specified.'') @
       err_if (SSHUser c0 = []) (ErrorString ''An ssh_username must be specified.'') @
       err_of ''Failed parsing boot_wait: ''
         (snd (if RawBootWait c0 \<noteq> []
          then ParseDuration (LibParseDuration X) (RawBootWait c0) else (BootWait c0, None))) @
       err_of ''Failed parsing shutdown_timeout: ''
         (snd (ParseDuration (LibParseDuration X) (or_default [] ''5m'' (RawShutdownTimeout c0)))) @
       err_of ''Failed parsing ssh_wait_timeout: ''
         (snd (ParseDuration (LibParseDuration X) (or_default [] ''20m'' (RawSSHWaitTimeout c0)))) @
       err_if (or_default 0 5900 (VNCPortMin c0) > or_default 0 6000 (VNCPortMax c0))
         (ErrorString ''vnc_port_min must be less than vnc_port_max'') @
       err_of ''Failed creating VMware driver: '' (snd (newDriver X))"
  have r: "snd (Prepare X raw b) = (if 0 < length E then Some (MultiError E) else None)"
    unfolding E_def by (rule Prepare_errors [OF d])
  have inv: "or_default 0 8000 (HTTPPortMin c0) > or_default 0 9000 (HTTPPortMax c0) \<or>
             or_default 0 5900 (VNCPortMin c0) > or_default 0 6000 (VNCPortMax c0)"
    using assms(3) by (simp add: assms(2) f)
  then have ne: "E \<noteq> []"
    by (auto simp: E_def)
  have res: "snd (Prepare X raw b) = Some (MultiError E)"
    using ne by (simp add: r)
  have 1: "HTTPPortMin c > HTTPPortMax c \<longrightarrow>
       ErrorString ''http_port_min must be less than http_port_max'' \<in> set E"
    by (simp add: assms(2) f E_def)
  have 2: "VNCPortMin c > VNCPortMax c \<longrightarrow>
       ErrorString ''vnc_port_min must be less than vnc_port_max'' \<in> set E"
    by (simp add: assms(2) f E_def)
  have 3: "ISOUrl c = [] \<longrightarrow> ErrorString ''An iso_url must be specified.'' \<in> set E"
    by (simp add: assms(2) f E_def)
  have 4: "SSHUser c = [] \<longrightarrow> ErrorString ''An ssh_username must be specified.'' \<in> set E"
    by (simp add: assms(2) f E_def)
  have 5: "\<forall>m. RawBootWait c \<noteq> [] \<and>
          snd (ParseDuration (LibParseDuration X) (RawBootWait c)) = Some m \<longrightarrow>
       ErrorString (''Failed parsing boot_wait: '' @ m) \<in> set E"
    by (simp add: assms(2) f E_def)
  have 6: "\<forall>m. snd (ParseDuration (LibParseDuration X) (RawShutdownTimeout c)) = Some m \<longrightarrow>
       ErrorString (''Failed parsing shutdown_timeout: '' @ m) \<in> set E"
    by (simp add: assms(2) f E_def)
  have 7: "\<forall>m. snd (ParseDuration (LibParseDuration X) (RawSSHWaitTimeout c)) = Some m \<longrightarrow>
       ErrorString (''Failed parsing ssh_wait_timeout: '' @ m) \<in> set E"
    by (simp add: assms(2) f E_def)
  have 8: "\<forall>m. Verify X (Fusion5Driver ''/Applications/VMware Fusion.app'') = Some m \<longrightarrow>
       ErrorString (''Failed creating VMware driver: '' @ m) \<in> set E"
    by (simp add: E_def newDriver_eq)
  from res 1 2 3 4 5 6 7 8 show ?thesis by blast
qed


lemma invalid_durations:
  "ParseDuration (LibParseDuration no_fusion_externals) ''soon'' =
     (0, Some ''time: invalid duration soon'')"
  "ParseDuration (LibParseDuration no_fusion_externals) ''later'' =
     (0, Some ''time: invalid duration later'')"
  "ParseDuration (LibParseDuration no_fusion_externals) ''never'' =
     (0, Some ''time: invalid duration never'')"
  by (simp_all add: duration_defs no_fusion_externals_def plain_externals_def)

lemma inverted_fields:
  "HTTPPortMin (config (fst (Prepare no_fusion_externals inverted_raw new_Builder))) = 9000"
  "HTTPPortMax (config (fst (Prepare no_fusion_externals inverted_raw new_Builder))) = 8000"
  "VNCPortMin (config (fst (Prepare no_fusion_externals inverted_raw new_Builder))) = 7000"
  "VNCPortMax (config (fst (Prepare no_fusion_externals inverted_raw new_Builder))) = 6000"
  "ISOUrl (config (fst (Prepare no_fusion_externals inverted_raw new_Builder))) = []"
  "SSHUser (config (fst (Prepare no_fusion_externals inverted_raw new_Builder))) = []"
  "RawBootWait (config (fst (Prepare no_fusion_externals inverted_raw new_Builder))) = ''soon''"
  "RawShutdownTimeout (config (fst (Prepare no_fusion_externals inverted_raw new_Builder))) =
     ''later''"
  "RawSSHWaitTimeout (config (fst (Prepare no_fusion_externals inverted_raw new_Builder))) =
     ''never''"
  by (simp_all add: Prepare_fields [OF decode_no_fusion] inverted_raw_def zero_config_def
      or_default_def)

lemma verify_no_fusion:
  "Verify no_fusion_externals d = Some ''VMware Fusion not found''"
  by (simp add: no_fusion_externals_def plain_externals_def)

theorem Prepare_reports_all_violations_witness:
  "Decode no_fusion_externals inverted_raw (config new_Builder) = (inverted_raw, None) \<and>
   HTTPPortMin (config (fst (Prepare no_fusion_externals inverted_raw new_Builder))) >
     HTTPPortMax (config (fst (Prepare no_fusion_externals inverted_raw new_Builder))) \<and>
   (\<exists>errs. snd (Prepare no_fusion_externals inverted_raw new_Builder) = Some (MultiError errs) \<and>
      ErrorString ''http_port_min must be less than http_port_max'' \<in> set errs \<and>
      ErrorString ''vnc_port_min must be less than vnc_port_max'' \<in> set errs \<and>
      ErrorString ''An iso_url must be specified.'' \<in> set errs \<and>
      ErrorString ''An ssh_username must be specified.'' \<in> set errs \<and>
      ErrorString ''Failed parsing boot_wait: time: invalid duration soon'' \<in> set errs \<and>
      ErrorString ''Failed parsing shutdown_timeout: time: invalid duration later'' \<in> set errs \<and>
      ErrorString ''Failed parsing ssh_wait_timeout: time: invalid duration never'' \<in> set errs \<and>
      ErrorString ''Failed creating VMware driver: VMware Fusion not found'' \<in> set errs)"
proof -
  let ?c = "config (fst (Prepare no_fusion_externals inverted_raw new_Builder))"
  have d: "Decode no_fusion_externals inverted_raw (config new_Builder) = (inverted_raw, None)"
    by (rule decode_no_fusion)
  have inv: "HTTPPortMin ?c > HTTPPortMax ?c \<or> VNCPortMin ?c > VNCPortMax ?c"
    by (simp add: inverted_fields)
  show ?thesis
    using Prepare_reports_all_violations [OF d refl inv] d
    by (simp add: inverted_fields invalid_durations verify_no_fusion)
qed

text \<open>
  C5, as the code has it. In a configuration \<^verbatim>\<open>Prepare\<close> accepts, the shutdown timeout
  and the SSH wait timeout are what the parser returns for their text (the default text
  where the option was empty), and so is the boot wait when \<^verbatim>\<open>boot_wait\<close> is not empty;
  the parser reported no error for any of them. The sign is not looked at.
\<close>

theorem Prepare_durations_as_parsed:
  assumes "snd (Prepare X raw b) = None"
    and "c = config (fst (Prepare X raw b))"
  shows "ParseDuration (LibParseDuration X) (RawShutdownTimeout c) = (ShutdownTimeout c, None) \<and>
     ParseDuration (LibParseDuration X) (RawSSHWaitTimeout c) = (SSHWaitTimeout c, None) \<and>
     (RawBootWait c \<noteq> [] \<longrightarrow>
        ParseDuration (LibParseDuration X) (RawBootWait c) = (BootWait c, None))"
proof -
  obtain c0 where d: "Decode X raw (config b) = (c0, None)"
    using Prepare_accepted_decoded [OF assms(1)] by auto
  note f = Prepare_fields [OF d]
  define E where "E =
       err_if (or_default 0 8000 (HTTPPortMin c0) > or_default 0 9000 (HTTPPortMax c0))
         (ErrorString ''http_port_min must be less than http_port_max'') @
       err_if (ISOUrl c0 = []) (ErrorString ''An iso_url must be specified.'') @
       err_if (SSHUser c0 = []) (ErrorString ''An ssh_username must be specified.'') @
       err_of ''Failed parsing boot_wait: ''
         (snd (if RawBootWait c0 \<noteq> []
          then ParseDuration (LibParseDuration X) (RawBootWait c0) else (BootWait c0, None))) @
       err_of ''Failed parsing shutdown_timeout: ''
         (snd (ParseDuration (LibParseDuration X) (or_default [] ''5m'' (RawShutdownTimeout c0)))) @
       err_of ''Failed parsing ssh_wait_timeout: ''
         (snd (ParseDuration (LibParseDuration X) (or_default [] ''20m'' (RawSSHWaitTimeout c0)))) @
       err_if (or_default 0 5900 (VNCPortMin c0) > or_default 0 6000 (VNCPortMax c0))
         (ErrorString ''vnc_port_min must be less than vnc_port_max'') @
       err_of ''Failed creating VMware driver: '' (snd (newDriver X))"
  have r: "snd (Prepare X raw b) = (if 0 < length E then Some (MultiError E) else None)"
    unfolding E_def by (rule Prepare_errors [OF d])
  have "E = []"
    using assms(1) by (simp add: r split: if_splits)
  then have ok:
    "snd (if RawBootWait c0 \<noteq> []
          then ParseDuration (LibParseDuration X) (RawBootWait c0) else (BootWait c0, None)) = None"
    "snd (ParseDuration (LibParseDuration X) (or_default [] ''5m'' (RawShutdownTimeout c0))) = None"
    "snd (ParseDuration (LibParseDuration X) (or_default [] ''20m'' (RawSSHWaitTimeout c0))) = None"
    by (simp_all add: E_def)
  have 1: "ParseDuration (LibParseDuration X) (RawShutdownTimeout c) = (ShutdownTimeout c, None)"
    using ok(2) by (simp add: assms(2) f prod_eq_iff)
  have 2: "ParseDuration (LibParseDuration X) (RawSSHWaitTimeout c) = (SSHWaitTimeout c, None)"
    using ok(3) by (simp add: assms(2) f prod_eq_iff)
  have 3: "RawBootWait c \<noteq> [] \<longrightarrow>
        ParseDuration (LibParseDuration X) (RawBootWait c) = (BootWait c, None)"
    using ok(1) by (auto simp: assms(2) f prod_eq_iff split: if_splits)
  from 1 2 3 show ?thesis by simp
qed

lemma Prepare_negative_accepted: "snd (Prepare plain_externals negative_raw new_Builder) = None"
  by (subst Prepare_errors [OF decode_plain])
    (simp add: newDriver_eq plain_externals_def negative_raw_def minimal_raw_def zero_config_def
      or_default_def ParseDuration_5m ParseDuration_20m ParseDuration_minus_5m)

lemma negative_fields:
  "RawBootWait (config (fst (Prepare plain_externals negative_raw new_Builder))) = ''-5m''"
  "BootWait (config (fst (Prepare plain_externals negative_raw new_Builder))) = - (5 * Minute)"
  by (simp_all add: Prepare_fields [OF decode_plain] negative_raw_def minimal_raw_def
      zero_config_def ParseDuration_minus_5m)

text \<open>
  C5 as stated fails: \<^verbatim>\<open>boot_wait = "-5m"\<close> is accepted, it parses, and the boot wait is
  minus five minutes.
\<close>

theorem Prepare_accepts_negative_duration:
  "snd (Prepare plain_externals negative_raw new_Builder) = None \<and>
   RawBootWait (config (fst (Prepare plain_externals negative_raw new_Builder))) = ''-5m'' \<and>
   ParseDuration (LibParseDuration plain_externals) ''-5m'' = (- 300000000000, None) \<and>
   BootWait (config (fst (Prepare plain_externals negative_raw new_Builder))) = - 300000000000 \<and>
   BootWait (config (fst (Prepare plain_externals negative_raw new_Builder))) < 0"
  by (simp add: Prepare_negative_accepted negative_fields ParseDuration_minus_5m
      Minute_def Second_def Millisecond_def Microsecond_def Nanosecond_def)

theorem Prepare_durations_as_parsed_witness:
  "snd (Prepare plain_externals negative_raw new_Builder) = None \<and>
   RawBootWait (config (fst (Prepare plain_externals negative_raw new_Builder))) \<noteq> [] \<and>
   ParseDuration (LibParseDuration plain_externals) ''-5m'' =
     (BootWait (config (fst (Prepare plain_externals negative_raw new_Builder))), None) \<and>
   ParseDuration (LibParseDuration plain_externals)
       (RawShutdownTimeout (config (fst (Prepare plain_externals negative_raw new_Builder)))) =
     (ShutdownTimeout (config (fst (Prepare plain_externals negative_raw new_Builder))), None)"
  using Prepare_durations_as_parsed [OF Prepare_negative_accepted refl]
  by (simp add: Prepare_negative_accepted negative_fields)

section \<open>Run: what it returns\<close>

text \<open>The outcome of \<^verbatim>\<open>Run\<close>, by what the runner leaves and what the walk returns.\<close>

lemma Run_outcome:
  fixes I b hook w
  defines "R \<equiv> Run I b hook w"
  defines "e \<equiv> ended (Run I b hook w)"
  shows "has_key (bag e) StateCancelled \<or> has_key (bag e) StateHalted \<Longrightarrow>
           artifact R = None \<and> after R = wld e"
    and "\<not> has_key (bag e) StateCancelled \<Longrightarrow> \<not> has_key (bag e) StateHalted \<Longrightarrow>
         Walk (lstat (wld e)) (OutputDir (conf e)) visit [] = (Some err, files) \<Longrightarrow>
           artifact R = None \<and>
           after R = (wld e)\<lparr>ui_errors := ui_errors (wld e) @
                       [''Error collecting result files: '' @ Error err]\<rparr>"
    and "\<not> has_key (bag e) StateCancelled \<Longrightarrow> \<not> has_key (bag e) StateHalted \<Longrightarrow>
         Walk (lstat (wld e)) (OutputDir (conf e)) visit [] = (None, files) \<Longrightarrow>
           artifact R = Some \<lparr>dir = OutputDir (conf e), paths = files\<rparr> \<and> after R = wld e"
    and "config (builder R) = conf e"
    and "driver (builder R) = driver b"
proof -
  obtain r' e' tr where B: "BasicRunner_Run I
      \<lparr>Steps = [stepPrepareOutputDir, stepCreateDisk, stepCreateVMX, stepHTTPServer,
                 stepConfigureVNC, stepRun, stepTypeBootCommand, stepWaitForSSH,
                 stepProvision, stepShutdown], ctx = None\<rparr>
      \<lparr>bag = [''config'' \<mapsto> ConfigPtr, ''driver'' \<mapsto> DriverVal (driver b),
               ''hook'' \<mapsto> HookVal hook, ''ui'' \<mapsto> UiVal],
       conf = config b, wld = w\<rparr> = (r', e', tr)"
    by (metis prod_cases3)
  have S: "Run I b hook w =
     (if has_key (bag e') StateCancelled \<or> has_key (bag e') StateHalted
      then \<lparr>builder = b\<lparr>config := conf e', runner := Some r'\<rparr>, after = wld e', ended = e',
             executed = tr, artifact = None\<rparr>
      else (case Walk (lstat (wld e')) (OutputDir (conf e')) visit [] of
         (Some err, files) \<Rightarrow>
           \<lparr>builder = b\<lparr>config := conf e', runner := Some r'\<rparr>,
            after = (wld e')\<lparr>ui_errors := ui_errors (wld e') @
                      [''Error collecting result files: '' @ Error err]\<rparr>,
            ended = e', executed = tr, artifact = None\<rparr>
       | (None, files) \<Rightarrow>
           \<lparr>builder = b\<lparr>config := conf e', runner := Some r'\<rparr>, after = wld e', ended = e',
            executed = tr,
            artifact = Some \<lparr>dir = OutputDir (conf e'), paths = files\<rparr>\<rparr>))"
    unfolding Run_def Let_def B
    by (cases "Walk (lstat (wld e')) (OutputDir (conf e')) visit []";
        cases "fst (Walk (lstat (wld e')) (OutputDir (conf e')) visit [])") simp_all
  have en: "e = e'"
    unfolding e_def by (simp add: S split: prod.splits option.splits)
  show "has_key (bag e) StateCancelled \<or> has_key (bag e) StateHalted \<Longrightarrow>
           artifact R = None \<and> after R = wld e"
    unfolding R_def en by (simp add: S)
  show "\<not> has_key (bag e) StateCancelled \<Longrightarrow> \<not> has_key (bag e) StateHalted \<Longrightarrow>
         Walk (lstat (wld e)) (OutputDir (conf e)) visit [] = (Some err, files) \<Longrightarrow>
           artifact R = None \<and>
           after R = (wld e)\<lparr>ui_errors := ui_errors (wld e) @
                       [''Error collecting result files: '' @ Error err]\<rparr>"
    unfolding R_def en by (simp add: S)
  show "\<not> has_key (bag e) StateCancelled \<Longrightarrow> \<not> has_key (bag e) StateHalted \<Longrightarrow>
         Walk (lstat (wld e)) (OutputDir (conf e)) visit [] = (None, files) \<Longrightarrow>
           artifact R = Some \<lparr>dir = OutputDir (conf e), paths = files\<rparr> \<and> after R = wld e"
    unfolding R_def en by (simp add: S)
  show "config (builder R) = conf e"
    unfolding R_def en by (simp add: S split: prod.splits option.splits)
  show "driver (builder R) = driver b"
    unfolding R_def by (simp add: S split: prod.splits option.splits)
qed

text \<open>\<^verbatim>\<open>Run\<close> does not read the runner the builder holds: it installs a new one.\<close>

lemma Run_ignores_runner: "Run I (b\<lparr>runner := r\<rparr>) hook w = Run I b hook w"
  by (simp add: Run_def Let_def)

text \<open>The stack of executed steps only grows, and a step runs when no marker is set.\<close>

lemma run_steps_stack: "run_steps I ss e ex = (e', ex') \<Longrightarrow> \<exists>pre. ex' = pre @ ex"
proof (induction ss arbitrary: e ex)
  case Nil
  then show ?case by simp
next
  case (Cons s ss)
  show ?case
  proof (cases "has_key (bag e) StateCancelled \<or> has_key (bag e) StateHalted")
    case True
    with Cons.prems show ?thesis by simp
  next
    case False
    obtain act e1 where r: "Run_step I s e = (act, e1)" by (cases "Run_step I s e")
    show ?thesis
    proof (cases act)
      case ActionHalt
      with Cons.prems False r show ?thesis by auto
    next
      case ActionContinue
      with Cons.prems False r have "run_steps I ss e1 (s # ex) = (e', ex')" by simp
      from Cons.IH [OF this] show ?thesis by auto
    qed
  qed
qed

lemma run_steps_first:
  assumes "\<not> has_key (bag e) StateCancelled" and "\<not> has_key (bag e) StateHalted"
    and "run_steps I (s # ss) e [] = (e', ex')"
  shows "\<exists>rest. rev ex' = s # rest"
proof -
  obtain act e1 where r: "Run_step I s e = (act, e1)" by (cases "Run_step I s e")
  show ?thesis
  proof (cases act)
    case ActionHalt
    with assms r show ?thesis by auto
  next
    case ActionContinue
    with assms r have "run_steps I ss e1 [s] = (e', ex')" by simp
    from run_steps_stack [OF this] obtain pre where "ex' = pre @ [s]" by auto
    then show ?thesis by simp
  qed
qed

lemma Run_first_step: "\<exists>rest. executed (Run I b hook w) = stepPrepareOutputDir # rest"
proof -
  let ?e0 = "\<lparr>bag = [''config'' \<mapsto> ConfigPtr, ''driver'' \<mapsto> DriverVal (driver b),
               ''hook'' \<mapsto> HookVal hook, ''ui'' \<mapsto> UiVal],
       conf = config b, wld = w\<rparr>"
  let ?ss = "[stepCreateDisk, stepCreateVMX, stepHTTPServer,
                 stepConfigureVNC, stepRun, stepTypeBootCommand, stepWaitForSSH,
                 stepProvision, stepShutdown]"
  obtain e1 ex where rs: "run_steps I (stepPrepareOutputDir # ?ss) ?e0 [] = (e1, ex)"
    by (cases "run_steps I (stepPrepareOutputDir # ?ss) ?e0 []")
  have c: "\<not> has_key (bag ?e0) StateCancelled" "\<not> has_key (bag ?e0) StateHalted"
    by (simp_all add: has_key_def StateCancelled_def StateHalted_def)
  have t: "\<exists>rest. rev ex = stepPrepareOutputDir # rest"
    by (rule run_steps_first [OF c rs])
  have "executed (Run I b hook w) = rev ex"
    using rs by (simp add: Run_def Let_def BasicRunner_Run_def split: prod.splits option.splits)
  with t show ?thesis by simp
qed


section \<open>The runs of the concrete inputs\<close>

lemmas run_defs =
  Run_def Let_def BasicRunner_Run_def has_key_def StateCancelled_def StateHalted_def
  d_builder_def d_world_def empty_world_def new_Builder_def minimal_raw_def zero_config_def
  Walk_def visit_def Join_def Clean_def

lemma quiet_Run:
  "executed (Run quiet_impl d_builder (Hook ''h'') d_world) =
     [stepPrepareOutputDir, stepCreateDisk, stepCreateVMX, stepHTTPServer, stepConfigureVNC,
      stepRun, stepTypeBootCommand, stepWaitForSSH, stepProvision, stepShutdown]"
  "artifact (Run quiet_impl d_builder (Hook ''h'') d_world) =
     Some \<lparr>dir = ''d'', paths = [''d'', ''d/a'', ''d/b'', ''d/b/c'']\<rparr>"
  "\<not> has_key (bag (ended (Run quiet_impl d_builder (Hook ''h'') d_world))) StateCancelled"
  "\<not> has_key (bag (ended (Run quiet_impl d_builder (Hook ''h'') d_world))) StateHalted"
  by (simp_all add: run_defs quiet_impl_def)

lemma halting_Run:
  "executed (Run halting_impl d_builder (Hook ''h'') d_world) =
     [stepPrepareOutputDir, stepCreateDisk]"
  "artifact (Run halting_impl d_builder (Hook ''h'') d_world) = None"
  "has_key (bag (ended (Run halting_impl d_builder (Hook ''h'') d_world))) StateHalted"
  by (simp_all add: run_defs halting_impl_def)

lemma cancelling_Run:
  "executed (Run cancelling_impl d_builder (Hook ''h'') d_world) =
     [stepPrepareOutputDir, stepCreateDisk, stepCreateVMX, stepHTTPServer, stepConfigureVNC,
      stepRun]"
  "artifact (Run cancelling_impl d_builder (Hook ''h'') d_world) = None"
  "has_key (bag (ended (Run cancelling_impl d_builder (Hook ''h'') d_world))) StateCancelled"
  by (simp_all add: run_defs cancelling_impl_def)

lemma missing_dir_Run:
  "\<not> has_key (bag (ended (Run quiet_impl d_builder (Hook ''h'') empty_world))) StateCancelled"
  "\<not> has_key (bag (ended (Run quiet_impl d_builder (Hook ''h'') empty_world))) StateHalted"
  "Walk (lstat (wld (ended (Run quiet_impl d_builder (Hook ''h'') empty_world))))
     (OutputDir (conf (ended (Run quiet_impl d_builder (Hook ''h'') empty_world)))) visit [] =
   (Some (OsError ''lstat d: no such file or directory''), [''d''])"
  "ui_errors (wld (ended (Run quiet_impl d_builder (Hook ''h'') empty_world))) = []"
  by (simp_all add: run_defs quiet_impl_def)


text \<open>
  The closure is handed the root first, so the list it builds starts with the root:
  whenever \<^verbatim>\<open>Run\<close> returns an artifact, the first of its paths is the output directory
  itself.
\<close>

lemma walk_visit_appends:
  "walk p n visit s = (r, s') \<Longrightarrow> \<exists>t. s' = s @ p # t"
  "walk_list p es visit s = (r, s') \<Longrightarrow> \<exists>t. s' = s @ t"
proof (induction p n "visit :: string list WalkFunc" s and p es "visit :: string list WalkFunc" s
    arbitrary: r s' and r s' rule: walk_walk_list.induct)
  case (1 path walkFn s)
  then show ?case by (auto simp: visit_def)
next
  case (2 path e walkFn s)
  then show ?case by (auto simp: visit_def)
next
  case (3 path list walkFn s)
  then show ?case by (fastforce simp: visit_def)
next
  case (4 path walkFn s)
  then show ?case by simp
next
  case (5 path name fileInfo rest walkFn s)
  then show ?case by (fastforce split: prod.splits option.splits)
qed

lemma Walk_visit_root:
  "Walk ls root visit [] = (r, files) \<Longrightarrow> \<exists>rest. files = root # rest"
  by (cases "ls root") (auto simp: Walk_def visit_def dest: walk_visit_appends(1))

lemma Run_artifact_starts_with_dir:
  assumes "artifact (Run I b hook w) = Some a"
  shows "\<exists>rest. paths a = dir a # rest"
proof -
  let ?e = "ended (Run I b hook w)"
  have m: "\<not> has_key (bag ?e) StateCancelled" "\<not> has_key (bag ?e) StateHalted"
    using assms Run_outcome(1) [of I b hook w] by auto
  obtain r files where W: "Walk (lstat (wld ?e)) (OutputDir (conf ?e)) visit [] = (r, files)"
    by (cases "Walk (lstat (wld ?e)) (OutputDir (conf ?e)) visit []")
  show ?thesis
  proof (cases r)
    case None
    with W Run_outcome(3) [OF m] assms
    have "a = \<lparr>dir = OutputDir (conf ?e), paths = files\<rparr>" by simp
    with Walk_visit_root [OF W] show ?thesis by auto
  next
    case (Some err)
    with W Run_outcome(2) [OF m] assms show ?thesis by simp
  qed
qed

section \<open>Properties of Run and Cancel\<close>

text \<open>
  C2. \<^verbatim>\<open>Run\<close> returns an artifact only if the state bag, after the runner has finished,
  holds neither the cancelled nor the halted marker; if either marker is there,
  \<^verbatim>\<open>Run\<close> returns no artifact.
\<close>

theorem Run_artifact_only_if_clean:
  "(artifact (Run I b hook w) \<noteq> None \<longrightarrow>
      \<not> has_key (bag (ended (Run I b hook w))) StateCancelled \<and>
      \<not> has_key (bag (ended (Run I b hook w))) StateHalted) \<and>
   (has_key (bag (ended (Run I b hook w))) StateCancelled \<or>
    has_key (bag (ended (Run I b hook w))) StateHalted \<longrightarrow>
      artifact (Run I b hook w) = None)"
  using Run_outcome(1) [of I b hook w] by auto

theorem Run_artifact_only_if_clean_witness:
  "has_key (bag (ended (Run halting_impl d_builder (Hook ''h'') d_world))) StateHalted \<and>
   artifact (Run halting_impl d_builder (Hook ''h'') d_world) = None \<and>
   has_key (bag (ended (Run cancelling_impl d_builder (Hook ''h'') d_world))) StateCancelled \<and>
   artifact (Run cancelling_impl d_builder (Hook ''h'') d_world) = None \<and>
   artifact (Run quiet_impl d_builder (Hook ''h'') d_world) \<noteq> None \<and>
   \<not> has_key (bag (ended (Run quiet_impl d_builder (Hook ''h'') d_world))) StateCancelled \<and>
   \<not> has_key (bag (ended (Run quiet_impl d_builder (Hook ''h'') d_world))) StateHalted"
  using Run_artifact_only_if_clean [of halting_impl d_builder "Hook ''h''" d_world]
    Run_artifact_only_if_clean [of cancelling_impl d_builder "Hook ''h''" d_world]
    Run_artifact_only_if_clean [of quiet_impl d_builder "Hook ''h''" d_world]
  by (simp add: halting_Run(3) cancelling_Run(3) quiet_Run(2))

text \<open>
  C10. When the runner leaves neither marker but the walk of the output directory
  returns an error, \<^verbatim>\<open>Run\<close> returns no artifact, whatever paths the walk had collected,
  and the UI receives one more error message, which carries the walk's error.
\<close>

theorem Run_walk_error_no_artifact:
  assumes "\<not> has_key (bag (ended (Run I b hook w))) StateCancelled"
    and "\<not> has_key (bag (ended (Run I b hook w))) StateHalted"
    and "Walk (lstat (wld (ended (Run I b hook w))))
           (OutputDir (conf (ended (Run I b hook w)))) visit [] = (Some err, files)"
  shows "artifact (Run I b hook w) = None \<and>
     ui_errors (after (Run I b hook w)) =
       ui_errors (wld (ended (Run I b hook w))) @
       [''Error collecting result files: '' @ Error err]"
  using Run_outcome(2) [OF assms] by simp

theorem Run_walk_error_no_artifact_witness:
  "\<not> has_key (bag (ended (Run quiet_impl d_builder (Hook ''h'') empty_world))) StateCancelled \<and>
   \<not> has_key (bag (ended (Run quiet_impl d_builder (Hook ''h'') empty_world))) StateHalted \<and>
   Walk (lstat (wld (ended (Run quiet_impl d_builder (Hook ''h'') empty_world))))
     (OutputDir (conf (ended (Run quiet_impl d_builder (Hook ''h'') empty_world)))) visit [] =
     (Some (OsError ''lstat d: no such file or directory''), [''d'']) \<and>
   artifact (Run quiet_impl d_builder (Hook ''h'') empty_world) = None \<and>
   ui_errors (after (Run quiet_impl d_builder (Hook ''h'') empty_world)) =
     [''Error collecting result files: lstat d: no such file or directory'']"
  using Run_walk_error_no_artifact [OF missing_dir_Run(1) missing_dir_Run(2) missing_dir_Run(3)]
  by (simp add: missing_dir_Run)

text \<open>
  C6. A clean run over an output directory \<^verbatim>\<open>d\<close> that holds the file \<^verbatim>\<open>a\<close> and the
  directory \<^verbatim>\<open>b\<close> with the file \<^verbatim>\<open>c\<close>: the specification expects the artifact to
  list \<^verbatim>\<open>d/a\<close> and \<^verbatim>\<open>d/b/c\<close> and nothing else, and the code collects its "result files"
  in a slice called \<^verbatim>\<open>files\<close>. But the closure appends every path the walk hands it,
  without a look at what the path is, so the artifact the code returns also lists the
  directories \<^verbatim>\<open>d\<close> and \<^verbatim>\<open>d/b\<close>.
\<close>

theorem Run_artifact_lists_directories:
  "\<not> has_key (bag (ended (Run quiet_impl d_builder (Hook ''h'') d_world))) StateCancelled \<and>
   \<not> has_key (bag (ended (Run quiet_impl d_builder (Hook ''h'') d_world))) StateHalted \<and>
   lstat (after (Run quiet_impl d_builder (Hook ''h'') d_world)) ''d'' =
     Inr (Dir [(''a'', File), (''b'', Dir [(''c'', File)])]) \<and>
   artifact (Run quiet_impl d_builder (Hook ''h'') d_world) =
     Some \<lparr>dir = ''d'', paths = [''d'', ''d/a'', ''d/b'', ''d/b/c'']\<rparr> \<and>
   artifact (Run quiet_impl d_builder (Hook ''h'') d_world) \<noteq>
     Some \<lparr>dir = ''d'', paths = [''d/a'', ''d/b/c'']\<rparr>"
  by (simp add: quiet_Run) (simp add: run_defs quiet_impl_def)

text \<open>
  C1, as the code has it. A builder on which \<^verbatim>\<open>Run\<close> has not started has no runner, and
  \<^verbatim>\<open>Cancel\<close> does nothing to it: it is unchanged and nothing is logged. The run that
  follows is the run there would have been without the call: it starts from a fresh
  state bag and executes its first step.
\<close>

theorem Cancel_before_Run_is_noop:
  assumes "runner b = None"
  shows "Cancel b = (b, []) \<and>
     Run I (fst (Cancel b)) hook w = Run I b hook w \<and>
     (\<exists>rest. executed (Run I (fst (Cancel b)) hook w) = stepPrepareOutputDir # rest)"
  using assms by (simp add: Cancel_def Run_first_step)

theorem Cancel_before_Run_is_noop_witness:
  "runner d_builder = None \<and> Cancel d_builder = (d_builder, []) \<and>
   Run quiet_impl (fst (Cancel d_builder)) (Hook ''h'') d_world =
     Run quiet_impl d_builder (Hook ''h'') d_world \<and>
   (\<exists>rest. executed (Run quiet_impl (fst (Cancel d_builder)) (Hook ''h'') d_world) =
     stepPrepareOutputDir # rest)"
proof -
  have n: "runner d_builder = None"
    by (simp add: d_builder_def new_Builder_def)
  show ?thesis
    using Cancel_before_Run_is_noop [OF n, of quiet_impl "Hook ''h''" d_world] n by auto
qed

text \<open>
  C1 as stated fails: after \<^verbatim>\<open>Cancel\<close> on a builder that has not run, \<^verbatim>\<open>Run\<close> executes all
  ten steps and returns an artifact.
\<close>

theorem Cancel_before_Run_runs_all_steps:
  "runner d_builder = None \<and>
   executed (Run quiet_impl (fst (Cancel d_builder)) (Hook ''h'') d_world) =
     [stepPrepareOutputDir, stepCreateDisk, stepCreateVMX, stepHTTPServer, stepConfigureVNC,
      stepRun, stepTypeBootCommand, stepWaitForSSH, stepProvision, stepShutdown] \<and>
   artifact (Run quiet_impl (fst (Cancel d_builder)) (Hook ''h'') d_world) =
     Some \<lparr>dir = ''d'', paths = [''d'', ''d/a'', ''d/b'', ''d/b/c'']\<rparr>"
proof -
  have n: "runner d_builder = None"
    by (simp add: d_builder_def new_Builder_def)
  then have "fst (Cancel d_builder) = d_builder"
    by (simp add: Cancel_def)
  with n show ?thesis by (simp add: quiet_Run)
qed

text \<open>
  C8. Two calls of \<^verbatim>\<open>Cancel\<close> in a row leave the builder, and with it the context its
  runner holds, as one call does: whether the builder has no runner, an idle runner or
  a runner in the middle of a run. (Each call on a builder with a runner writes its
  line to the log; the log is not part of the builder.)
\<close>

theorem Cancel_idempotent: "fst (Cancel (fst (Cancel b))) = fst (Cancel b)"
proof (cases "runner b")
  case None
  then show ?thesis by (simp add: Cancel_def)
next
  case (Some r)
  have "BasicRunner_Cancel (BasicRunner_Cancel r) = BasicRunner_Cancel r"
    by (cases "ctx r") (simp_all add: BasicRunner_Cancel_def)
  with Some show ?thesis by (simp add: Cancel_def)
qed

text \<open>
  On a builder in the middle of a run, the call marks the context cancelled; a second
  call changes nothing more, and logs its line again.
\<close>

lemma Cancel_running:
  "\<exists>r. runner (fst (Cancel running_builder)) = Some r \<and>
     map_option (\<lambda>m. has_key m StateCancelled) (ctx r) = Some True"
  "snd (Cancel running_builder) = [''Cancelling the step runner...'']"
  "snd (Cancel (fst (Cancel running_builder))) = [''Cancelling the step runner...'']"
  by (simp_all add: Cancel_def BasicRunner_Cancel_def running_builder_def has_key_def)

theorem Cancel_idempotent_witness:
  "fst (Cancel (fst (Cancel running_builder))) = fst (Cancel running_builder) \<and>
   (\<exists>r. runner (fst (Cancel (fst (Cancel running_builder)))) = Some r \<and>
      map_option (\<lambda>m. has_key m StateCancelled) (ctx r) = Some True) \<and>
   fst (Cancel (fst (Cancel new_Builder))) = new_Builder"
  using Cancel_idempotent [of running_builder] Cancel_idempotent [of new_Builder]
    Cancel_running(1)
  by (simp add: Cancel_def new_Builder_def)

section \<open>Prepare and Run together\<close>

text \<open>Steps that all continue run all ten, whatever the builder and the world.\<close>

lemma quiet_executed:
  "executed (Run quiet_impl b hook w) =
     [stepPrepareOutputDir, stepCreateDisk, stepCreateVMX, stepHTTPServer, stepConfigureVNC,
      stepRun, stepTypeBootCommand, stepWaitForSSH, stepProvision, stepShutdown]"
  by (simp add: Run_def Let_def BasicRunner_Run_def quiet_impl_def has_key_def
      StateCancelled_def StateHalted_def split: prod.splits option.splits)

lemma Prepare_no_fusion_d:
  "snd (Prepare no_fusion_externals (config d_builder) new_Builder) =
     Some (MultiError [ErrorString ''Failed creating VMware driver: VMware Fusion not found''])"
  "driver (fst (Prepare no_fusion_externals (config d_builder) new_Builder)) = None"
proof -
  show "snd (Prepare no_fusion_externals (config d_builder) new_Builder) =
     Some (MultiError [ErrorString ''Failed creating VMware driver: VMware Fusion not found''])"
    by (subst Prepare_errors [OF decode_no_fusion])
      (simp add: newDriver_eq verify_no_fusion d_builder_def new_Builder_def minimal_raw_def
        zero_config_def or_default_def ParseDuration_5m ParseDuration_20m err_if_def err_of_def)
  show "driver (fst (Prepare no_fusion_externals (config d_builder) new_Builder)) = None"
    by (simp add: Prepare_driver(1) [OF decode_no_fusion] newDriver_eq verify_no_fusion)
qed

text \<open>
  C7, as the code has it. \<^verbatim>\<open>Prepare\<close> obtains its driver from \<^verbatim>\<open>newDriver\<close>, which builds
  the Fusion driver on the fixed path \<^verbatim>\<open>/Applications/VMware Fusion.app\<close> and calls its
  \<^verbatim>\<open>Verify\<close>. If that succeeds the builder holds this one driver. If it fails the
  builder holds none, and the failure is one of the errors of the \<^verbatim>\<open>MultiError\<close> that
  \<^verbatim>\<open>Prepare\<close> returns. The builder keeps no record of that error and \<^verbatim>\<open>Run\<close> does not
  ask for one: a \<^verbatim>\<open>Run\<close> on the builder \<^verbatim>\<open>Prepare\<close> leaves, whatever \<^verbatim>\<open>Prepare\<close> returned,
  executes its first step. That the build does not start is left to the caller.
\<close>

theorem Prepare_binds_driver:
  assumes "Decode X raw (config b) = (c0, None)"
  shows "(Verify X (Fusion5Driver ''/Applications/VMware Fusion.app'') = None \<longrightarrow>
       driver (fst (Prepare X raw b)) = Some (Fusion5Driver ''/Applications/VMware Fusion.app'')) \<and>
     (\<forall>m. Verify X (Fusion5Driver ''/Applications/VMware Fusion.app'') = Some m \<longrightarrow>
       driver (fst (Prepare X raw b)) = None \<and>
       (\<exists>errs. snd (Prepare X raw b) = Some (MultiError errs) \<and>
          ErrorString (''Failed creating VMware driver: '' @ m) \<in> set errs)) \<and>
     runner (fst (Prepare X raw b)) = runner b \<and>
     (\<exists>rest. executed (Run I (fst (Prepare X raw b)) hook w) = stepPrepareOutputDir # rest)"
proof (intro conjI impI allI)
  show "runner (fst (Prepare X raw b)) = runner b"
    by (rule Prepare_driver(2) [OF assms])
next
  show "\<exists>rest. executed (Run I (fst (Prepare X raw b)) hook w) = stepPrepareOutputDir # rest"
    by (rule Run_first_step)
next
  assume "Verify X (Fusion5Driver ''/Applications/VMware Fusion.app'') = None"
  then show "driver (fst (Prepare X raw b)) =
      Some (Fusion5Driver ''/Applications/VMware Fusion.app'')"
    by (simp add: Prepare_driver(1) [OF assms] newDriver_eq)
next
  fix m
  assume v: "Verify X (Fusion5Driver ''/Applications/VMware Fusion.app'') = Some m"
  then show "driver (fst (Prepare X raw b)) = None"
    by (simp add: Prepare_driver(1) [OF assms] newDriver_eq)
  define E where "E =
       err_if (or_default 0 8000 (HTTPPortMin c0) > or_default 0 9000 (HTTPPortMax c0))
         (ErrorString ''http_port_min must be less than http_port_max'') @
       err_if (ISOUrl c0 = []) (ErrorString ''An iso_url must be specified.'') @
       err_if (SSHUser c0 = []) (ErrorString ''An ssh_username must be specified.'') @
       err_of ''Failed parsing boot_wait: ''
         (snd (if RawBootWait c0 \<noteq> []
          then ParseDuration (LibParseDuration X) (RawBootWait c0) else (BootWait c0, None))) @
       err_of ''Failed parsing shutdown_timeout: ''
         (snd (ParseDuration (LibParseDuration X) (or_default [] ''5m'' (RawShutdownTimeout c0)))) @
       err_of ''Failed parsing ssh_wait_timeout: ''
         (snd (ParseDuration (LibParseDuration X) (or_default [] ''20m'' (RawSSHWaitTimeout c0)))) @
       err_if (or_default 0 5900 (VNCPortMin c0) > or_default 0 6000 (VNCPortMax c0))
         (ErrorString ''vnc_port_min must be less than vnc_port_max'') @
       err_of ''Failed creating VMware driver: '' (snd (newDriver X))"
  have r: "snd (Prepare X raw b) = (if 0 < length E then Some (MultiError E) else None)"
    unfolding E_def by (rule Prepare_errors [OF assms])
  have mem: "ErrorString (''Failed creating VMware driver: '' @ m) \<in> set E"
    using v by (simp add: E_def newDriver_eq)
  then have "E \<noteq> []" by auto
  then have "snd (Prepare X raw b) = Some (MultiError E)"
    by (simp add: r)
  with mem show "\<exists>errs. snd (Prepare X raw b) = Some (MultiError errs) \<and>
          ErrorString (''Failed creating VMware driver: '' @ m) \<in> set errs"
    by blast
qed

theorem Prepare_binds_driver_witness:
  "Decode no_fusion_externals minimal_raw (config new_Builder) = (minimal_raw, None) \<and>
   Verify no_fusion_externals (Fusion5Driver ''/Applications/VMware Fusion.app'') =
     Some ''VMware Fusion not found'' \<and>
   driver (fst (Prepare no_fusion_externals minimal_raw new_Builder)) = None \<and>
   (\<exists>errs. snd (Prepare no_fusion_externals minimal_raw new_Builder) = Some (MultiError errs) \<and>
      ErrorString ''Failed creating VMware driver: VMware Fusion not found'' \<in> set errs) \<and>
   (\<exists>rest. executed (Run quiet_impl (fst (Prepare no_fusion_externals minimal_raw new_Builder))
      (Hook ''h'') d_world) = stepPrepareOutputDir # rest) \<and>
   Decode plain_externals minimal_raw (config new_Builder) = (minimal_raw, None) \<and>
   Verify plain_externals (Fusion5Driver ''/Applications/VMware Fusion.app'') = None \<and>
   driver (fst (Prepare plain_externals minimal_raw new_Builder)) =
     Some (Fusion5Driver ''/Applications/VMware Fusion.app'')"
proof -
  have v: "Verify plain_externals (Fusion5Driver ''/Applications/VMware Fusion.app'') = None"
    by (simp add: plain_externals_def)
  show ?thesis
    using Prepare_binds_driver [OF decode_no_fusion, of minimal_raw new_Builder quiet_impl
        "Hook ''h''" d_world]
      Prepare_binds_driver [OF decode_plain, of minimal_raw new_Builder quiet_impl
        "Hook ''h''" d_world]
      decode_no_fusion [of minimal_raw "config new_Builder"]
      decode_plain [of minimal_raw "config new_Builder"] v
    by (simp add: verify_no_fusion)
qed

text \<open>
  C7 as stated fails in its last part: the driver does not verify, \<^verbatim>\<open>Prepare\<close> returns
  the error and binds no driver, and a \<^verbatim>\<open>Run\<close> on the builder it leaves still executes
  all ten steps.
\<close>

theorem Run_after_failed_Prepare_runs_all_steps:
  "Verify no_fusion_externals (Fusion5Driver ''/Applications/VMware Fusion.app'') =
     Some ''VMware Fusion not found'' \<and>
   snd (Prepare no_fusion_externals (config d_builder) new_Builder) =
     Some (MultiError
       [ErrorString ''Failed creating VMware driver: VMware Fusion not found'']) \<and>
   driver (fst (Prepare no_fusion_externals (config d_builder) new_Builder)) = None \<and>
   executed (Run quiet_impl (fst (Prepare no_fusion_externals (config d_builder) new_Builder))
       (Hook ''h'') d_world) =
     [stepPrepareOutputDir, stepCreateDisk, stepCreateVMX, stepHTTPServer, stepConfigureVNC,
      stepRun, stepTypeBootCommand, stepWaitForSSH, stepProvision, stepShutdown]"
  by (simp add: verify_no_fusion Prepare_no_fusion_d quiet_executed)

end
